theory Spec2Isabelle
  imports Complex_Main "HOL-Library.Sublist" "HOL-Library.Multiset"
begin

section \<open>Python values shared by the embedded modules\<close>

subsection \<open>Exceptions\<close>

text \<open>
  Every exception class that one of the embedded functions can raise is a constructor.
  \<open>APIError\<close> (src/api/base.py) and \<open>ValueError\<close> carry the message they were built
  with, which is what \<open>str(e)\<close> returns for them; \<open>status_code\<close> and \<open>details\<close> of
  \<open>APIError\<close> are diagnostic payload that no embedded code path reads, and are left out.
  \<open>InvalidOperation\<close>, \<open>DivisionByZero\<close> and \<open>Overflow\<close> are the three signals of the
  \<open>decimal\<close> module that the default context traps, \<open>ValidationError\<close> is pydantic's,
  \<open>OSError\<close> a failed file operation, \<open>TypeError\<close> an operation on a value of the wrong
  type.
\<close>

datatype error =
    APIError string
  | ValueError string
  | TypeError
  | OSError
  | InvalidOperation
  | DivisionByZero
  | Overflow
  | ValidationError

subsection \<open>Strings\<close>

text \<open>\<open>sep.join(xs)\<close>.\<close>

fun join :: "string \<Rightarrow> string list \<Rightarrow> string" where
  "join sep [] = []"
| "join sep [x] = x"
| "join sep (x # y # ys) = x @ sep @ join sep (y # ys)"

text \<open>
  \<open>str.upper()\<close> and \<open>str.strip()\<close> on ASCII text, which is what currency codes are:
  \<open>upper\<close> maps \<open>a..z\<close> to \<open>A..Z\<close>, \<open>strip\<close> removes the ASCII characters for which
  \<open>str.isspace()\<close> holds (tab, line feed, vertical tab, form feed, carriage return,
  the separators 0x1C to 0x1F and the space) from both ends.
\<close>

definition upper_char :: "char \<Rightarrow> char" where
  "upper_char c =
     (let n = of_char c :: nat in if 97 \<le> n \<and> n \<le> 122 then char_of (n - 32) else c)"

definition upper :: "string \<Rightarrow> string" where
  "upper s = map upper_char s"

definition isspace :: "char \<Rightarrow> bool" where
  "isspace c = (let n = of_char c :: nat in (9 \<le> n \<and> n \<le> 13) \<or> (28 \<le> n \<and> n \<le> 32))"

definition strip :: "string \<Rightarrow> string" where
  "strip s = rev (dropWhile isspace (rev (dropWhile isspace s)))"

subsection \<open>decimal.Decimal under the default context\<close>

text \<open>
  A finite \<open>Decimal\<close> is its sign, its coefficient and its exponent (the triple of
  \<open>as_tuple()\<close>, the coefficient read as the integer \<open>int(self._int)\<close>, which is never
  negative); its value is \<open>(-1)^sign * coefficient * 10^exponent\<close>. Arithmetic
  results are rounded by the context: the program never changes it, so it is the
  default one, with precision 28, rounding \<open>ROUND_HALF_EVEN\<close>, \<open>Emax = 999999\<close>,
  \<open>Emin = -999999\<close>, no clamping, and the traps \<open>InvalidOperation\<close>,
  \<open>DivisionByZero\<close> and \<open>Overflow\<close>. The other signals (\<open>Inexact\<close>, \<open>Rounded\<close>,
  \<open>Subnormal\<close>, \<open>Underflow\<close>, \<open>Clamped\<close>) only set flags.
\<close>

datatype decimal = Decimal (dsign: bool) (dint: int) (dexp: int)

definition dval :: "decimal \<Rightarrow> rat" where
  "dval d = (if dsign d then - 1 else 1) * of_int (dint d) * 10 powi dexp d"

definition prec :: int where "prec = 28"
definition Emax :: int where "Emax = 999999"
definition Emin :: int where "Emin = - 999999"
definition Etiny :: int where "Etiny = Emin - prec + 1"
definition Etop :: int where "Etop = Emax - prec + 1"

text \<open>\<open>len(self._int)\<close>: the number of decimal digits of the coefficient (1 for 0).\<close>

function ndigits :: "int \<Rightarrow> int" where
  "ndigits n = (if n < 10 then 1 else 1 + ndigits (n div 10))"
  by pat_completeness auto
termination
  by (relation "measure nat") auto

declare ndigits.simps [simp del]

definition adjusted :: "decimal \<Rightarrow> int" where
  "adjusted d = dexp d + ndigits (dint d) - 1"

text \<open>
  The coefficient that is left when the last \<open>k\<close> digits of \<open>c\<close> are dropped, under
  \<open>ROUND_HALF_EVEN\<close> and under \<open>ROUND_HALF_UP\<close> (the coefficient is a magnitude, so
  "up" is away from zero).
\<close>

definition round_half_even :: "int \<Rightarrow> nat \<Rightarrow> int" where
  "round_half_even c k =
     (let q = c div 10 ^ k; r = c mod 10 ^ k
      in if 2 * r > 10 ^ k \<or> (2 * r = 10 ^ k \<and> odd q) then q + 1 else q)"

definition round_half_up :: "int \<Rightarrow> nat \<Rightarrow> int" where
  "round_half_up c k =
     (let q = c div 10 ^ k; r = c mod 10 ^ k
      in if 2 * r \<ge> 10 ^ k then q + 1 else q)"

text \<open>
  \<open>Decimal._fix\<close>: what every arithmetic operation does to its exact result. A
  coefficient of more than 28 digits is rounded half-even to 28; an adjusted exponent
  above \<open>Emax\<close> raises \<open>Overflow\<close>; a result below \<open>Emin\<close> is rounded at exponent
  \<open>Etiny\<close>.
\<close>

definition dec_fix :: "decimal \<Rightarrow> error + decimal" where
  "dec_fix d =
     (case d of Decimal s c e \<Rightarrow>
        if c = 0 then Inr (Decimal s 0 (min (max e Etiny) Emax))
        else
          let exp_min0 = ndigits c + e - prec in
          if exp_min0 > Etop then Inl Overflow
          else
            let exp_min = (if exp_min0 < Etiny then Etiny else exp_min0) in
            if e < exp_min then
              (let coeff = round_half_even c (nat (exp_min - e)) in
               if ndigits coeff > prec then
                 (if exp_min + 1 > Etop then Inl Overflow
                  else Inr (Decimal s (coeff div 10) (exp_min + 1)))
               else Inr (Decimal s coeff exp_min))
            else Inr d)"

text \<open>\<open>Decimal.__mul__\<close> on finite operands.\<close>

definition dec_mul :: "decimal \<Rightarrow> decimal \<Rightarrow> error + decimal" where
  "dec_mul a b = dec_fix (Decimal (dsign a \<noteq> dsign b) (dint a * dint b) (dexp a + dexp b))"

text \<open>
  \<open>Decimal.__truediv__\<close> on finite operands. The quotient is computed to one digit more
  than the precision; when the division is not exact a last digit 0 or 5 is bumped, so
  that the rounding of \<open>_fix\<close> sees that digits follow; when it is exact, trailing
  zeros are removed while the exponent is below the ideal one (the \<open>while\<close> loop).
\<close>

function strip_zeros :: "int \<Rightarrow> int \<Rightarrow> int \<Rightarrow> int \<times> int" where
  "strip_zeros coeff e ideal_exp =
     (if e < ideal_exp \<and> coeff mod 10 = 0
      then strip_zeros (coeff div 10) (e + 1) ideal_exp
      else (coeff, e))"
  by pat_completeness auto
termination
  by (relation "measure (\<lambda>(coeff, e, ideal_exp). nat (ideal_exp - e))") auto

declare strip_zeros.simps [simp del]

definition dec_div :: "decimal \<Rightarrow> decimal \<Rightarrow> error + decimal" where
  "dec_div a b =
     (let sign = (dsign a \<noteq> dsign b) in
      if dint b = 0 then (if dint a = 0 then Inl InvalidOperation else Inl DivisionByZero)
      else if dint a = 0 then dec_fix (Decimal sign 0 (dexp a - dexp b))
      else
        let shift = ndigits (dint b) - ndigits (dint a) + prec + 1;
            e = dexp a - dexp b - shift;
            num = (if shift \<ge> 0 then dint a * 10 ^ nat shift else dint a);
            den = (if shift \<ge> 0 then dint b else dint b * 10 ^ nat (- shift));
            coeff = num div den;
            remainder = num mod den
        in if remainder \<noteq> 0
           then dec_fix (Decimal sign (if coeff mod 5 = 0 then coeff + 1 else coeff) e)
           else (case strip_zeros coeff e (dexp a - dexp b) of
                   (coeff', e') \<Rightarrow> dec_fix (Decimal sign coeff' e')))"

text \<open>
  \<open>Decimal.quantize(exp, rounding=ROUND_HALF_UP)\<close>, with \<open>e\<close> the exponent of the
  pattern (-2 for \<open>Decimal('0.01')\<close>), and \<open>Decimal._rescale\<close> that it calls.
\<close>

definition rescale :: "decimal \<Rightarrow> int \<Rightarrow> decimal" where
  "rescale d e =
     (case d of Decimal s c x \<Rightarrow>
        if c = 0 then Decimal s 0 e
        else if x \<ge> e then Decimal s (c * 10 ^ nat (x - e)) e
        else Decimal s (round_half_up c (nat (e - x))) e)"

definition quantize :: "decimal \<Rightarrow> int \<Rightarrow> error + decimal" where
  "quantize d e =
     (if \<not> (Etiny \<le> e \<and> e \<le> Emax) then Inl InvalidOperation
      else if dint d = 0 then dec_fix (Decimal (dsign d) 0 e)
      else if adjusted d > Emax then Inl InvalidOperation
      else if adjusted d - e + 1 > prec then Inl InvalidOperation
      else
        let ans = rescale d e in
        if adjusted ans > Emax then Inl InvalidOperation
        else if ndigits (dint ans) > prec then Inl InvalidOperation
        else dec_fix ans)"

text \<open>Comparison with zero: \<open>d > 0\<close> compares values, not triples.\<close>

definition gt0 :: "decimal \<Rightarrow> bool" where
  "gt0 d = (\<not> dsign d \<and> dint d > 0)"

subsection \<open>float: IEEE 754 binary64\<close>

text \<open>
  A finite float is \<open>\<plusminus> m * 2^x\<close> in canonical form: \<open>2^52 \<le> m < 2^53\<close> and
  \<open>-1074 \<le> x \<le> 971\<close> for a normal number, \<open>m < 2^52\<close> and \<open>x = -1074\<close> for a subnormal
  one and for zero. \<open>pyfloat\<close> adds the infinities, which \<open>float()\<close> returns on overflow.
  NaN is left out: no conversion of a finite number produces it.
\<close>

datatype float64 = Float64 (fsign: bool) (fman: int) (fexp: int)

datatype pyfloat = Finite float64 | Inf bool

function bitlen :: "int \<Rightarrow> int" where
  "bitlen n = (if n \<le> 0 then 0 else 1 + bitlen (n div 2))"
  by pat_completeness auto
termination
  by (relation "measure nat") auto

declare bitlen.simps [simp del]

text \<open>
  The integer nearest to \<open>num / den\<close>, ties to even; and the binary64 nearest to the
  positive rational \<open>p / q\<close>, ties to even (\<open>None\<close> on overflow). \<open>lg\<close> is
  \<open>floor (log2 (p / q))\<close>, found from the bit lengths and one comparison.
\<close>

definition div_half_even :: "int \<Rightarrow> int \<Rightarrow> int" where
  "div_half_even num den =
     (let q = num div den; r = num mod den
      in if 2 * r > den \<or> (2 * r = den \<and> odd q) then q + 1 else q)"

definition round_ratio :: "int \<Rightarrow> int \<Rightarrow> (int \<times> int) option" where
  "round_ratio p q =
     (if p = 0 then Some (0, - 1074)
      else
        let b = bitlen p - bitlen q;
            lg = (if p * 2 ^ nat (- b) \<ge> q * 2 ^ nat b then b else b - 1);
            x = max (lg - 52) (- 1074);
            m = div_half_even (p * 2 ^ nat (- x)) (q * 2 ^ nat x);
            m' = (if m = 2 ^ 53 then 2 ^ 52 else m);
            x' = (if m = 2 ^ 53 then x + 1 else x)
        in if x' > 971 then None else Some (m', x'))"

text \<open>
  \<open>float(d)\<close> for a finite \<open>Decimal\<close>: \<open>Decimal.__float__\<close> is \<open>float(str(d))\<close>, and
  \<open>float\<close> of a numeric string is its correctly rounded binary64, or an infinity.
\<close>

definition float_of_decimal :: "decimal \<Rightarrow> pyfloat" where
  "float_of_decimal d =
     (case (if dexp d \<ge> 0 then round_ratio (dint d * 10 ^ nat (dexp d)) 1
            else round_ratio (dint d) (10 ^ nat (- dexp d))) of
        None \<Rightarrow> Inf (dsign d)
      | Some (m, x) \<Rightarrow> Finite (Float64 (dsign d) m x))"

text \<open>
  \<open>repr\<close> of a finite float (which is also its \<open>str\<close>) is the shortest digit string
  that \<open>float\<close> reads back as the same float, and among those the nearest to its
  value (ties to the even digit); 17 digits always suffice. The value of \<open>f\<close> is
  \<open>fnum f / fden f\<close>, \<open>log10_floor\<close> is the floor of its decimal logarithm, found from
  the digit counts and one comparison. For \<open>n\<close> digits the last one has weight
  \<open>10^k\<close>, and \<open>scaled f n\<close> is the value in that unit, as a fraction; only the two
  \<open>n\<close>-digit decimals around it can read back as \<open>f\<close>.
\<close>

definition fnum :: "float64 \<Rightarrow> int" where
  "fnum f = fman f * 2 ^ nat (fexp f)"

definition fden :: "float64 \<Rightarrow> int" where
  "fden f = 2 ^ nat (- fexp f)"

definition reads_back :: "float64 \<Rightarrow> int \<Rightarrow> int \<Rightarrow> bool" where
  "reads_back f D k =
     (round_ratio (D * 10 ^ nat k) (10 ^ nat (- k)) = Some (fman f, fexp f))"

definition log10_floor :: "int \<Rightarrow> int \<Rightarrow> int" where
  "log10_floor p q =
     (let b = ndigits p - ndigits q
      in if p * 10 ^ nat (- b) \<ge> q * 10 ^ nat b then b else b - 1)"

definition scaled :: "float64 \<Rightarrow> int \<Rightarrow> int \<times> int \<times> int" where
  "scaled f n =
     (let k = log10_floor (fnum f) (fden f) - n + 1
      in (fnum f * 10 ^ nat (- k), fden f * 10 ^ nat k, k))"

definition nearest :: "float64 \<Rightarrow> int \<Rightarrow> int \<times> int" where
  "nearest f n = (case scaled f n of (num, den, k) \<Rightarrow> (div_half_even num den, k))"

definition candidate :: "float64 \<Rightarrow> int \<Rightarrow> (int \<times> int) option" where
  "candidate f n =
     (case scaled f n of (num, den, k) \<Rightarrow>
        if num mod den = 0
        then (if reads_back f (num div den) k then Some (num div den, k) else None)
        else if reads_back f (num div den) k
          then (if reads_back f (num div den + 1) k then Some (nearest f n)
                else Some (num div den, k))
        else if reads_back f (num div den + 1) k then Some (num div den + 1, k)
        else None)"

function shortest_from :: "float64 \<Rightarrow> int \<Rightarrow> int \<times> int" where
  "shortest_from f n =
     (case candidate f n of
        Some r \<Rightarrow> r
      | None \<Rightarrow> if n \<ge> 17 then nearest f n else shortest_from f (n + 1))"
  by pat_completeness auto
termination
  by (relation "measure (\<lambda>(f, n). nat (17 - n))") auto

declare shortest_from.simps [simp del]

text \<open>
  \<open>Decimal(str(f))\<close>. The digits of \<open>repr\<close> carry no trailing zero. It writes them in
  fixed notation when the decimal point falls at \<open>-4 < decpt \<le> 16\<close> and in exponent
  notation otherwise; an integral value in fixed notation ends in \<open>.0\<close>, which
  \<open>Decimal\<close> keeps as one more digit of the coefficient. Zero is \<open>'0.0'\<close>.
\<close>

definition decimal_of_float :: "float64 \<Rightarrow> decimal" where
  "decimal_of_float f =
     (if fman f = 0 then Decimal (fsign f) 0 (- 1)
      else
        case shortest_from f 1 of (D0, k0) \<Rightarrow>
        case strip_zeros D0 k0 (k0 + ndigits D0) of (D, k) \<Rightarrow>
          let decpt = k + ndigits D in
          if - 4 < decpt \<and> decpt \<le> 16 \<and> k \<ge> 0
          then Decimal (fsign f) (D * 10 ^ nat (k + 1)) (- 1)
          else Decimal (fsign f) D k)"

text \<open>\<open>valor <= 0\<close> on a float.\<close>

definition le0 :: "float64 \<Rightarrow> bool" where
  "le0 f = (fsign f \<or> fman f = 0)"

subsection \<open>Logging\<close>

text \<open>
  A logger call appends one entry: the level and the formatted message. The message
  of an f-string is the list of its parts, with the interpolated floats, integers and
  exceptions kept as values instead of their renderings. The loggers of
  \<open>ConversorMoedas\<close> and of \<open>APIManager\<close> write to the one log of the process.
\<close>

datatype level = DEBUG | INFO | WARNING | ERROR

datatype part = S string | F float64 | N nat | E error

datatype log_entry = Log level "part list"

type_synonym log = "log_entry list"

section \<open>src/api: provider clients and the manager\<close>

subsection \<open>APIManager.executar_com_fallback (src/api/manager.py)\<close>

text \<open>
  A client is its \<open>nome\<close> and what calling one of its methods does:
  \<open>metodo c name args\<close> is the outcome of \<open>getattr(client, name)(*args)\<close>, either
  a result or the exception raised. The manager's loop tries the clients in order,
  returns the first result, collects \<open>"{nome}: {e}"\<close> for every \<open>APIError\<close>, lets any
  other exception propagate (the \<open>except\<close> clause names \<open>APIError\<close> only), and raises
  the aggregate \<open>APIError\<close> when the list is exhausted.
\<close>

record 'r client =
  nome :: string
  metodo :: "string \<Rightarrow> string list \<Rightarrow> error + 'r"

fun fallback_loop ::
  "'r client list \<Rightarrow> string \<Rightarrow> string list \<Rightarrow> string list \<Rightarrow> log \<Rightarrow> (error + 'r) \<times> log" where
  "fallback_loop [] method_name args errors lg =
     (Inl (APIError (''Todas as APIs falharam: '' @ join ''; '' errors)), lg)"
| "fallback_loop (c # cs) method_name args errors lg =
     (let lg1 = lg @ [Log DEBUG [S ''Tentando '', S (nome c), S ''.'', S method_name, S ''()'']] in
      case metodo c method_name args of
        Inr result \<Rightarrow> (Inr result, lg1 @ [Log DEBUG [S ''Sucesso com '', S (nome c)]])
      | Inl (APIError e) \<Rightarrow>
          fallback_loop cs method_name args (errors @ [nome c @ '': '' @ e])
            (lg1 @ [Log WARNING [S ''Falha em '', S (nome c), S '': '', E (APIError e)]])
      | Inl other \<Rightarrow> (Inl other, lg1))"

definition executar_com_fallback ::
  "'r client list \<Rightarrow> string \<Rightarrow> string list \<Rightarrow> log \<Rightarrow> (error + 'r) \<times> log" where
  "executar_com_fallback clients method_name args lg =
     fallback_loop clients method_name args [] lg"

definition obter_taxa_par ::
  "decimal client list \<Rightarrow> string \<Rightarrow> string \<Rightarrow> log \<Rightarrow> (error + decimal) \<times> log" where
  "obter_taxa_par clients de_moeda para_moeda lg =
     executar_com_fallback clients ''obter_taxa_par'' [de_moeda, para_moeda] lg"



subsection \<open>ExchangeRateClient.tratar_erro (src/api/exchangerate.py)\<close>





section \<open>src/core/cache.py: CacheManager\<close>

text \<open>
  Times are \<open>datetime\<close> values counted in microseconds, \<open>ttl\<close> is in seconds. The
  persisted tier is the directory \<open>cache_dir\<close>: a map from a key to what the file
  \<open>{key}.json\<close> holds, described by what \<open>get\<close> meets when it decodes it:
  \<^item> \<open>NotJson\<close>: text that \<open>json.load\<close> rejects (\<open>JSONDecodeError\<close>), as an empty or
    truncated file is;
  \<^item> \<open>NonObject\<close>: a JSON array, string, number or null, on which \<open>data['timestamp']\<close>
    raises \<open>TypeError\<close>;
  \<^item> \<open>JObject ts v\<close>: a JSON object, with its \<open>timestamp\<close> field (missing, which is a
    \<open>KeyError\<close>; not a string, on which \<open>fromisoformat\<close> raises \<open>TypeError\<close>; a string
    that is not an ISO date, a \<open>ValueError\<close>; a naive timestamp; or one with a UTC
    offset, which cannot be subtracted from the naive \<open>datetime.now()\<close>) and its
    \<open>value\<close> field, if present.
  Values are JSON-representable, as the floats the converter stores are: what
  \<open>json.load\<close> returns is the value \<open>json.dump\<close> was given.
\<close>

datatype tsfield = TsMissing | TsNonString | TsInvalid | TsNaive int | TsAware int

datatype 'v arquivo = NotJson | NonObject | JObject tsfield "'v option"

record 'v cache_manager =
  ttl :: int
  memory_cache :: "string \<rightharpoonup> 'v"
  timestamps :: "string \<rightharpoonup> int"
  cache_dir :: "string \<rightharpoonup> 'v arquivo"

definition is_valid :: "'v cache_manager \<Rightarrow> int \<Rightarrow> string \<Rightarrow> bool" where
  "is_valid c now key =
     (case timestamps c key of
        None \<Rightarrow> False
      | Some ts \<Rightarrow> now - ts < ttl c * 1000000)"

definition unlink :: "'v cache_manager \<Rightarrow> string \<Rightarrow> 'v cache_manager" where
  "unlink c key = c\<lparr>cache_dir := (cache_dir c)(key := None)\<rparr>"

definition delete :: "'v cache_manager \<Rightarrow> string \<Rightarrow> 'v cache_manager" where
  "delete c key =
     unlink (c\<lparr>memory_cache := (memory_cache c)(key := None),
               timestamps := (timestamps c)(key := None)\<rparr>) key"

definition get ::
  "'v cache_manager \<Rightarrow> int \<Rightarrow> string \<Rightarrow> (error + 'v option) \<times> 'v cache_manager" where
  "get c now key =
     (case memory_cache c key of
        Some v \<Rightarrow>
          if is_valid c now key then (Inr (Some v), c) else (Inr None, delete c key)
      | None \<Rightarrow>
          (case cache_dir c key of
             None \<Rightarrow> (Inr None, c)
           | Some NotJson \<Rightarrow> (Inr None, unlink c key)
           | Some NonObject \<Rightarrow> (Inl TypeError, c)
           | Some (JObject TsMissing v) \<Rightarrow> (Inr None, unlink c key)
           | Some (JObject TsNonString v) \<Rightarrow> (Inl TypeError, c)
           | Some (JObject TsInvalid v) \<Rightarrow> (Inr None, unlink c key)
           | Some (JObject (TsAware t) v) \<Rightarrow> (Inl TypeError, c)
           | Some (JObject (TsNaive t) v) \<Rightarrow>
               if now - t < ttl c * 1000000 then
                 (case v of
                    None \<Rightarrow> (Inr None, unlink c key)
                  | Some x \<Rightarrow>
                      (Inr (Some x),
                       c\<lparr>memory_cache := (memory_cache c)(key \<mapsto> x),
                         timestamps := (timestamps c)(key \<mapsto> t)\<rparr>))
               else (Inr None, unlink c key)))"

text \<open>
  \<open>set\<close> writes the in-memory tier, then opens the file with mode \<open>'w'\<close>, which
  truncates it, and dumps the entry into it. What the file system does is the
  parameter \<open>w\<close>: the write succeeds; \<open>open\<close> fails and the file is untouched; or the
  file is opened and the write fails (a full disk), which leaves the file empty or
  with a prefix of the entry.
\<close>

datatype write_outcome = WriteOk | OpenFails | WriteFails

definition set_cache ::
  "'v cache_manager \<Rightarrow> int \<Rightarrow> write_outcome \<Rightarrow> string \<Rightarrow> 'v \<Rightarrow> (error + unit) \<times> 'v cache_manager" where
  "set_cache c now w key v =
     (let c1 = c\<lparr>memory_cache := (memory_cache c)(key \<mapsto> v),
                 timestamps := (timestamps c)(key \<mapsto> now)\<rparr>
      in case w of
           OpenFails \<Rightarrow> (Inl OSError, c1)
         | WriteFails \<Rightarrow> (Inl OSError, c1\<lparr>cache_dir := (cache_dir c1)(key \<mapsto> NotJson)\<rparr>)
         | WriteOk \<Rightarrow>
             (Inr (), c1\<lparr>cache_dir := (cache_dir c1)(key \<mapsto> JObject (TsNaive now) (Some v))\<rparr>))"

section \<open>src/core/models.py\<close>

text \<open>
  \<open>Conversao\<close> and \<open>ConversaoMultipla\<close>. Building a \<open>Conversao\<close> runs pydantic's
  validation: \<open>valor_original\<close> and \<open>valor_convertido\<close> are declared \<open>Field(..., gt=0)\<close>,
  the other fields accept every value of their type. \<open>mk_Conversao\<close> is the
  constructor call of \<open>converter\<close>, which leaves \<open>id\<close> and \<open>notas\<close> at their default
  \<open>None\<close> and lets \<open>timestamp\<close> default to \<open>datetime.now()\<close>.
\<close>

record conversao =
  conv_id :: "nat option"
  valor_original :: decimal
  valor_convertido :: decimal
  moeda_origem :: string
  moeda_destino :: string
  taxa :: decimal
  taxa_inversa :: decimal
  timestamp :: int
  notas :: "string option"

definition mk_Conversao ::
  "decimal \<Rightarrow> decimal \<Rightarrow> string \<Rightarrow> string \<Rightarrow> decimal \<Rightarrow> decimal \<Rightarrow> int \<Rightarrow> error + conversao" where
  "mk_Conversao v_original v_convertido origem destino tx tx_inversa now =
     (if gt0 v_original \<and> gt0 v_convertido then
        Inr \<lparr>conv_id = None, valor_original = v_original, valor_convertido = v_convertido,
             moeda_origem = origem, moeda_destino = destino, taxa = tx,
             taxa_inversa = tx_inversa, timestamp = now, notas = None\<rparr>
      else Inl ValidationError)"

record conversao_multipla =
  multipla_id :: "nat option"
  multipla_valor_original :: decimal
  multipla_moeda_origem :: string
  conversoes :: "conversao list"
  multipla_timestamp :: int

section \<open>src/core/conversor.py: ConversorMoedas\<close>

text \<open>
  The state a conversion works on: the cache (whose values are the floats
  \<open>converter\<close> stores), the log, and the two tables of the database. The database is
  the external store of src/database: \<open>salvar\<close> and \<open>salvar_multipla\<close> append a row and
  hand back its key, here the position of the row. What a call meets outside the
  process is its environment: the clock (read as one instant per call), the provider
  clients with what they answer, what the file system does to a cache write, and
  the exception the database session raises, if any.
\<close>

record state =
  cache :: "pyfloat cache_manager"
  logger :: log
  db_conversoes :: "conversao list"
  db_multiplas :: "conversao_multipla list"

record env =
  now :: int
  clients :: "decimal client list"
  disk_write :: write_outcome
  db_error :: "error option"

definition log_add :: "state \<Rightarrow> log_entry \<Rightarrow> state" where
  "log_add s entry = s\<lparr>logger := logger s @ [entry]\<rparr>"

text \<open>
  The two \<open>except\<close> clauses of \<open>converter\<close>: the exception is logged and raised again.
\<close>

definition falhar :: "state \<Rightarrow> error \<Rightarrow> (error + conversao) \<times> state" where
  "falhar s e =
     (case e of
        APIError m \<Rightarrow> (Inl e, log_add s (Log ERROR [S ''Erro da API: '', E e]))
      | _ \<Rightarrow> (Inl e, log_add s (Log ERROR [S ''Erro inesperado: '', E e])))"

text \<open>The key \<open>f"taxa:{de_moeda}:{para_moeda}"\<close>.\<close>

definition cache_key :: "string \<Rightarrow> string \<Rightarrow> string" where
  "cache_key de_moeda para_moeda = ''taxa:'' @ de_moeda @ '':'' @ para_moeda"

text \<open>
  Lines 136 to 144: the rate comes from the cache, as \<open>Decimal(str(taxa))\<close> of the float
  found there (\<open>None\<close> stands for \<open>Decimal('Infinity')\<close>, which a cached infinity gives),
  or from the providers, and then \<open>float(taxa)\<close> is stored in the cache.
\<close>

definition obter_taxa ::
  "env \<Rightarrow> state \<Rightarrow> string \<Rightarrow> string \<Rightarrow> (error + decimal option) \<times> state" where
  "obter_taxa ev s de_moeda para_moeda =
     (case get (cache s) (now ev) (cache_key de_moeda para_moeda) of
        (Inl e, c) \<Rightarrow> (Inl e, s\<lparr>cache := c\<rparr>)
      | (Inr None, c) \<Rightarrow>
          (case obter_taxa_par (clients ev) de_moeda para_moeda (logger s) of
             (Inl e, lg) \<Rightarrow> (Inl e, s\<lparr>cache := c, logger := lg\<rparr>)
           | (Inr tx, lg) \<Rightarrow>
               (case set_cache c (now ev) (disk_write ev) (cache_key de_moeda para_moeda)
                       (float_of_decimal tx) of
                  (Inl e, c') \<Rightarrow> (Inl e, s\<lparr>cache := c', logger := lg\<rparr>)
                | (Inr u, c') \<Rightarrow> (Inr (Some tx), s\<lparr>cache := c', logger := lg\<rparr>)))
      | (Inr (Some cached), c) \<Rightarrow>
          (Inr (case cached of Finite f \<Rightarrow> Some (decimal_of_float f) | Inf sg \<Rightarrow> None),
           log_add (s\<lparr>cache := c\<rparr>) (Log DEBUG [S ''Taxa obtida do cache''])))"

text \<open>
  Lines 146 to 159: the amount as a decimal, the product, its rounding to two places,
  the inverse rate and the result object. With an infinite rate the product of the
  positive amount is an infinity and \<open>quantize\<close> raises \<open>InvalidOperation\<close>.
\<close>

definition calcular ::
  "float64 \<Rightarrow> decimal option \<Rightarrow> string \<Rightarrow> string \<Rightarrow> int \<Rightarrow> error + conversao" where
  "calcular valor tx_opt de_moeda para_moeda agora =
     (let valor_decimal = decimal_of_float valor in
      case tx_opt of
        None \<Rightarrow> Inl InvalidOperation
      | Some tx \<Rightarrow>
          (case dec_mul valor_decimal tx of
             Inl e \<Rightarrow> Inl e
           | Inr produto \<Rightarrow>
               (case quantize produto (- 2) of
                  Inl e \<Rightarrow> Inl e
                | Inr resultado \<Rightarrow>
                    (case (if dint tx \<noteq> 0 then dec_div (Decimal False 1 0) tx
                           else Inr (Decimal False 0 0)) of
                       Inl e \<Rightarrow> Inl e
                     | Inr inversa \<Rightarrow>
                         mk_Conversao valor_decimal resultado de_moeda para_moeda
                           tx inversa agora))))"

text \<open>
  \<open>repo.salvar\<close> inside \<open>session_scope\<close>: the row is added and its key written into the
  object, unless the session raises.
\<close>

definition salvar_conversao :: "env \<Rightarrow> state \<Rightarrow> conversao \<Rightarrow> (error + conversao) \<times> state" where
  "salvar_conversao ev s conv =
     (case db_error ev of
        Some e \<Rightarrow> (Inl e, s)
      | None \<Rightarrow>
          (let conv' = conv\<lparr>conv_id := Some (Suc (length (db_conversoes s)))\<rparr>
           in (Inr conv', s\<lparr>db_conversoes := db_conversoes s @ [conv']\<rparr>)))"

text \<open>
  The state after \<open>logger.info(f"Convertendo {valor} {de_moeda} \<rightarrow> {para_moeda}")\<close>, which
  follows the two validations.
\<close>

definition log_inicio :: "state \<Rightarrow> float64 \<Rightarrow> string \<Rightarrow> string \<Rightarrow> state" where
  "log_inicio s valor de_moeda para_moeda =
     log_add s (Log INFO [S ''Convertendo '', F valor, S '' '', S de_moeda,
                          S [CHR 0x20, CHR 0xE2, CHR 0x86, CHR 0x92, CHR 0x20],
                          S para_moeda])"

definition converter ::
  "env \<Rightarrow> state \<Rightarrow> float64 \<Rightarrow> string \<Rightarrow> string \<Rightarrow> bool \<Rightarrow> (error + conversao) \<times> state" where
  "converter ev s valor de_moeda0 para_moeda0 salvar =
     (if le0 valor then (Inl (ValueError ''Valor deve ser maior que zero''), s)
      else
        let de_moeda = strip (upper de_moeda0);
            para_moeda = strip (upper para_moeda0)
        in
        if de_moeda = para_moeda
        then (Inl (ValueError ''Moedas de origem e destino devem ser diferentes''), s)
        else
          case obter_taxa ev (log_inicio s valor de_moeda para_moeda) de_moeda para_moeda of
            (Inl e, s2) \<Rightarrow> falhar s2 e
          | (Inr tx, s2) \<Rightarrow>
              (case calcular valor tx de_moeda para_moeda (now ev) of
                 Inl e \<Rightarrow> falhar s2 e
               | Inr conversao \<Rightarrow>
                   if salvar then
                     (case salvar_conversao ev s2 conversao of
                        (Inl e, s3) \<Rightarrow> falhar s3 e
                      | (Inr salva, s3) \<Rightarrow>
                          (Inr salva,
                           log_add s3 (Log INFO [S (''Convers'' @ [CHR 0xC3, CHR 0xA3] @ ''o salva: ''),
                                                 N (the (conv_id salva))])))
                   else (Inr conversao, s2)))"



text \<open>
  Reading the log: the targets for which the loop of \<open>converter_multiplo\<close> logged
  \<open>"Erro ao converter para {moeda}: {e}"\<close>, in order.
\<close>

definition alvo_falho :: "log_entry \<Rightarrow> string option" where
  "alvo_falho entry =
     (case entry of
        Log WARNING [S p, S m, S q, E e] \<Rightarrow>
          if p = ''Erro ao converter para '' then Some m else None
      | _ \<Rightarrow> None)"

definition alvos_falhos :: "log \<Rightarrow> string list" where
  "alvos_falhos lg = List.map_filter alvo_falho lg"

section \<open>Concrete clients and states\<close>

text \<open>
  \<open>FrankfurterClient.obter_taxa_par\<close> (src/api/frankfurter.py), given what the request
  for a pair produces: an \<open>APIError\<close> of \<open>_fazer_requisicao\<close>, or the \<open>rates\<close> dict of
  the response, its numbers already read as \<open>Decimal(str(v))\<close>. A target missing from
  the dict raises \<open>APIError\<close>. The method name is not looked at: the manager calls a
  \<open>decimal client\<close> with \<open>obter_taxa_par\<close> only.
\<close>

definition frankfurter ::
  "(string \<Rightarrow> string \<Rightarrow> error + (string \<rightharpoonup> decimal)) \<Rightarrow> decimal client" where
  "frankfurter requisicao =
     \<lparr>nome = ''Frankfurter'',
      metodo = (\<lambda>method_name args.
        case args of
          [de_moeda, para_moeda] \<Rightarrow>
            (case requisicao de_moeda para_moeda of
               Inl e \<Rightarrow> Inl e
             | Inr rates \<Rightarrow>
                 (case rates para_moeda of
                    None \<Rightarrow> Inl (APIError (''Moeda '' @ para_moeda @ '' n''
                                              @ [CHR 0xC3, CHR 0xA3] @ ''o encontrada''))
                  | Some v \<Rightarrow> Inr v))
        | _ \<Rightarrow> Inl TypeError)\<rparr>"

text \<open>
  A converter with the default TTL of one hour, nothing cached, nothing logged and an
  empty database; and an environment with working storage.
\<close>

definition estado_vazio :: state where
  "estado_vazio =
     \<lparr>cache = \<lparr>ttl = 3600, memory_cache = Map.empty, timestamps = Map.empty,
                cache_dir = Map.empty\<rparr>,
      logger = [], db_conversoes = [], db_multiplas = []\<rparr>"

definition ambiente :: "int \<Rightarrow> decimal client list \<Rightarrow> env" where
  "ambiente agora cs = \<lparr>now = agora, clients = cs, disk_write = WriteOk, db_error = None\<rparr>"

section \<open>Properties of the provider manager\<close>





section \<open>Properties of the keyed provider's error handling\<close>




section \<open>Properties of the cache\<close>

text \<open>
  Claim C7 fails on the code. The file of the key holds a JSON document that is not
  an object (\<open>[]\<close>, say): \<open>json.load\<close> succeeds, \<open>data['timestamp']\<close> raises
  \<open>TypeError\<close>, which the \<open>except\<close> clause of \<open>get\<close> does not list, so \<open>get\<close> raises
  instead of deleting the entry and returning absent.
\<close>

theorem get_non_object_raises:
  "fst (get \<lparr>ttl = 3600, memory_cache = Map.empty, timestamps = Map.empty,
             cache_dir = [''taxa:USD:BRL'' \<mapsto> (NonObject :: pyfloat arquivo)]\<rparr>
          1700000000000000 ''taxa:USD:BRL'')
   = Inl TypeError"
  by (simp add: get_def)

text \<open>
  On every other kind of file \<open>get\<close> returns: a missing file, text that is not JSON,
  and an object whose timestamp is missing, malformed or naive.
\<close>

lemma get_returns:
  assumes "cache_dir c key \<noteq> Some NonObject"
    and "\<forall>v. cache_dir c key \<noteq> Some (JObject TsNonString v)"
    and "\<forall>t v. cache_dir c key \<noteq> Some (JObject (TsAware t) v)"
  shows "\<exists>r. fst (get c t1 key) = Inr r"
  using assms
  by (auto simp: get_def split: option.splits arquivo.splits tsfield.splits)

text \<open>
  Claim C5, as stated, fails: the key holds a valid persisted entry, the write fails
  after the file was opened, and the entry is gone.
\<close>

theorem set_cache_counterexample:
  "fst (set_cache
          \<lparr>ttl = 3600, memory_cache = Map.empty, timestamps = Map.empty,
           cache_dir = [''taxa:USD:BRL'' \<mapsto>
             JObject (TsNaive 0) (Some (Finite (Float64 False 5713379077272895 (- 50))))]\<rparr>
          1000000 WriteFails ''taxa:USD:BRL'' (Finite (Float64 False 5629499534213120 (- 50))))
     = Inl OSError
   \<and> cache_dir (snd (set_cache
          \<lparr>ttl = 3600, memory_cache = Map.empty, timestamps = Map.empty,
           cache_dir = [''taxa:USD:BRL'' \<mapsto>
             JObject (TsNaive 0) (Some (Finite (Float64 False 5713379077272895 (- 50))))]\<rparr>
          1000000 WriteFails ''taxa:USD:BRL'' (Finite (Float64 False 5629499534213120 (- 50)))))
        ''taxa:USD:BRL''
     = Some NotJson"
  by (simp add: set_cache_def Let_def)

text \<open>
  Claim C5, amended. \<open>set\<close> always writes the in-memory tier first. Then it writes the
  file in place: when the write succeeds, the persisted entry is the new one and \<open>set\<close>
  returns; when the file cannot be opened, \<open>set\<close> fails with the storage error and the
  persisted tier is as it was; when the write fails after the file was opened, \<open>set\<close>
  fails with the storage error and the file is left undecodable, whatever it held.
\<close>

theorem set_cache_tiers:
  "memory_cache (snd (set_cache c t1 w key v)) key = Some v
   \<and> timestamps (snd (set_cache c t1 w key v)) key = Some t1
   \<and> (w = WriteOk \<longrightarrow>
        fst (set_cache c t1 w key v) = Inr ()
        \<and> cache_dir (snd (set_cache c t1 w key v)) key = Some (JObject (TsNaive t1) (Some v)))
   \<and> (w = OpenFails \<longrightarrow>
        fst (set_cache c t1 w key v) = Inl OSError
        \<and> cache_dir (snd (set_cache c t1 w key v)) = cache_dir c)
   \<and> (w = WriteFails \<longrightarrow>
        fst (set_cache c t1 w key v) = Inl OSError
        \<and> cache_dir (snd (set_cache c t1 w key v)) key = Some NotJson)"
  by (cases w) (simp_all add: set_cache_def Let_def)

theorem set_cache_tiers_witness:
  "memory_cache (snd (set_cache (cache estado_vazio) 5 OpenFails ''k'' (Inf False))) ''k''
     = Some (Inf False)
   \<and> fst (set_cache (cache estado_vazio) 5 OpenFails ''k'' (Inf False)) = Inl OSError
   \<and> cache_dir (snd (set_cache (cache estado_vazio) 5 OpenFails ''k'' (Inf False))) ''k'' = None
   \<and> fst (set_cache (cache estado_vazio) 5 WriteOk ''k'' (Inf False)) = Inr ()
   \<and> cache_dir (snd (set_cache (cache estado_vazio) 5 WriteOk ''k'' (Inf False))) ''k''
     = Some (JObject (TsNaive 5) (Some (Inf False)))
   \<and> cache_dir (snd (set_cache (cache estado_vazio) 5 WriteFails ''k'' (Inf False))) ''k''
     = Some NotJson"
  using set_cache_tiers [of "cache estado_vazio" 5 OpenFails "''k''" "Inf False"]
    set_cache_tiers [of "cache estado_vazio" 5 WriteOk "''k''" "Inf False"]
    set_cache_tiers [of "cache estado_vazio" 5 WriteFails "''k''" "Inf False"]
  by (simp add: estado_vazio_def)

section \<open>Properties of the conversion engine: validation\<close>



section \<open>Properties of the conversion engine: batches\<close>




section \<open>Properties of the conversion engine: the result\<close>

lemma fst_falhar [simp]: "fst (falhar s e) = Inl e"
  by (cases e) (simp_all add: falhar_def)

lemma falhar_not_Inr [simp]: "falhar s e \<noteq> (Inr c, s')"
  using fst_falhar [of s e] by (metis fst_conv sum.distinct(1))

lemma mk_Conversao_Inr:
  "mk_Conversao a r de para tx iv t1 = Inr c \<Longrightarrow>
     gt0 a \<and> gt0 r \<and> valor_original c = a \<and> valor_convertido c = r \<and> taxa c = tx
     \<and> taxa_inversa c = iv \<and> moeda_origem c = de \<and> moeda_destino c = para
     \<and> timestamp c = t1 \<and> conv_id c = None"
  by (auto simp: mk_Conversao_def split: if_splits)

lemma calcular_Inr:
  "calcular valor txo de para t1 = Inr c \<Longrightarrow>
     \<exists>tx p. txo = Some tx \<and> dec_mul (decimal_of_float valor) tx = Inr p
       \<and> quantize p (- 2) = Inr (valor_convertido c)
       \<and> (if dint tx \<noteq> 0 then dec_div (Decimal False 1 0) tx else Inr (Decimal False 0 0))
            = Inr (taxa_inversa c)
       \<and> gt0 (decimal_of_float valor) \<and> gt0 (valor_convertido c)
       \<and> valor_original c = decimal_of_float valor \<and> taxa c = tx
       \<and> moeda_origem c = de \<and> moeda_destino c = para \<and> timestamp c = t1 \<and> conv_id c = None"
  unfolding calcular_def Let_def
  by (auto split: option.splits sum.splits dest!: mk_Conversao_Inr)

lemma salvar_conversao_Inr:
  "salvar_conversao ev s c = (Inr c', s') \<Longrightarrow>
     c' = c\<lparr>conv_id := Some (Suc (length (db_conversoes s)))\<rparr>"
  by (auto simp: salvar_conversao_def Let_def split: option.splits)

lemma converter_Inr:
  assumes "converter ev s valor de para salvar = (Inr c, s')"
  shows "\<not> le0 valor \<and> strip (upper de) \<noteq> strip (upper para)
     \<and> (\<exists>txo. fst (obter_taxa ev (log_inicio s valor (strip (upper de)) (strip (upper para)))
                      (strip (upper de)) (strip (upper para))) = Inr txo
          \<and> calcular valor txo (strip (upper de)) (strip (upper para)) (now ev)
              = Inr (c\<lparr>conv_id := None\<rparr>))"
proof -
  have id: "\<And>c0 txo a b t n. calcular valor txo a b t = Inr c0 \<Longrightarrow>
      (c0\<lparr>conv_id := n\<rparr>)\<lparr>conv_id := None\<rparr> = c0 \<and> c0\<lparr>conv_id := None\<rparr> = c0"
    by (auto dest!: calcular_Inr)
  show ?thesis
    using assms
    unfolding converter_def Let_def
    by (auto split: if_splits prod.splits sum.splits dest!: salvar_conversao_Inr simp: id)
qed

lemma gt0_dval: "gt0 d \<Longrightarrow> 0 < dval d"
  by (simp add: gt0_def dval_def)

lemma dval_eq_0_iff: "dval d = 0 \<longleftrightarrow> dint d = 0"
  by (simp add: dval_def)

text \<open>
  Claim C9. A result that \<open>converter\<close> returns has a converted amount greater than zero.
  And when the product of the amount and the obtained rate, as the code computes it,
  is quantized to \<open>0.00\<close> (the inverse rate being computable), \<open>converter\<close> raises pydantic's
  \<open>ValidationError\<close>: the \<open>Conversao\<close> model requires \<open>valor_convertido > 0\<close>.
\<close>

theorem converter_result_positive:
  "(converter ev s valor de para salvar = (Inr c, s') \<longrightarrow>
      gt0 (valor_convertido c) \<and> 0 < dval (valor_convertido c))
   \<and> (\<not> le0 valor \<and> strip (upper de) \<noteq> strip (upper para)
      \<and> fst (obter_taxa ev (log_inicio s valor (strip (upper de)) (strip (upper para)))
               (strip (upper de)) (strip (upper para))) = Inr (Some tx)
      \<and> dec_mul (decimal_of_float valor) tx = Inr p
      \<and> quantize p (- 2) = Inr r
      \<and> dval r = 0
      \<and> (dint tx = 0 \<or> (\<exists>iv. dec_div (Decimal False 1 0) tx = Inr iv)) \<longrightarrow>
      fst (converter ev s valor de para salvar) = Inl ValidationError)"
proof (intro conjI impI)
  assume "converter ev s valor de para salvar = (Inr c, s')"
  then have "gt0 (valor_convertido c)"
    by (auto dest!: converter_Inr calcular_Inr)
  then show "gt0 (valor_convertido c)" and "0 < dval (valor_convertido c)"
    by (simp_all add: gt0_dval)
next
  assume "\<not> le0 valor \<and> strip (upper de) \<noteq> strip (upper para)
      \<and> fst (obter_taxa ev (log_inicio s valor (strip (upper de)) (strip (upper para)))
               (strip (upper de)) (strip (upper para))) = Inr (Some tx)
      \<and> dec_mul (decimal_of_float valor) tx = Inr p
      \<and> quantize p (- 2) = Inr r
      \<and> dval r = 0
      \<and> (dint tx = 0 \<or> (\<exists>iv. dec_div (Decimal False 1 0) tx = Inr iv))"
  then show "fst (converter ev s valor de para salvar) = Inl ValidationError"
    unfolding converter_def Let_def calcular_def mk_Conversao_def
    by (auto simp: dval_eq_0_iff gt0_def split: prod.splits sum.splits if_splits)
qed

text \<open>
  The amounts are the floats 100.0 and 0.001: 100 USD at 5.0745 is a result of 507.45
  BRL, and 0.001 USD at the rate 1 rounds to 0.00 and is refused.
\<close>

theorem converter_result_positive_witness:
  "(\<exists>c s'. converter (ambiente 0 [frankfurter (\<lambda>de para. Inr [''BRL'' \<mapsto> Decimal False 50745 (- 4)])])
              estado_vazio (Float64 False 7036874417766400 (- 46)) ''USD'' ''BRL'' True
            = (Inr c, s')
          \<and> valor_convertido c = Decimal False 50745 (- 2)
          \<and> 0 < dval (valor_convertido c))
   \<and> fst (converter (ambiente 0 [frankfurter (\<lambda>de para. Inr [''BRL'' \<mapsto> Decimal False 1 0])])
            estado_vazio (Float64 False 4611686018427388 (- 62)) ''USD'' ''BRL'' True)
       = Inl ValidationError"
proof -
  let ?ev5 = "ambiente 0 [frankfurter (\<lambda>de para. Inr [''BRL'' \<mapsto> Decimal False 50745 (- 4)])]"
  let ?ev1 = "ambiente 0 [frankfurter (\<lambda>de para. Inr [''BRL'' \<mapsto> Decimal False 1 0])]"
  let ?v = "Float64 False 4611686018427388 (- 62)"
  have a: "map_sum id valor_convertido
             (fst (converter ?ev5 estado_vazio (Float64 False 7036874417766400 (- 46))
                     ''USD'' ''BRL'' True))
           = Inr (Decimal False 50745 (- 2))"
    by code_simp
  then obtain c where c: "fst (converter ?ev5 estado_vazio (Float64 False 7036874417766400 (- 46))
                     ''USD'' ''BRL'' True) = Inr c" "valor_convertido c = Decimal False 50745 (- 2)"
    by (cases "fst (converter ?ev5 estado_vazio (Float64 False 7036874417766400 (- 46))
                     ''USD'' ''BRL'' True)") auto
  then obtain s' where s': "converter ?ev5 estado_vazio (Float64 False 7036874417766400 (- 46))
                     ''USD'' ''BRL'' True = (Inr c, s')"
    by (metis prod.collapse)
  have h1: "\<not> le0 ?v" by (simp add: le0_def)
  have h2: "strip (upper ''USD'') \<noteq> strip (upper ''BRL'')" by code_simp
  have h3: "fst (obter_taxa ?ev1 (log_inicio estado_vazio ?v (strip (upper ''USD'')) (strip (upper ''BRL'')))
               (strip (upper ''USD'')) (strip (upper ''BRL''))) = Inr (Some (Decimal False 1 0))"
    by code_simp
  have h4: "dec_mul (decimal_of_float ?v) (Decimal False 1 0) = Inr (Decimal False 1 (- 3))"
    by code_simp
  have h5: "quantize (Decimal False 1 (- 3)) (- 2) = Inr (Decimal False 0 (- 2))"
    by code_simp
  have h6: "dval (Decimal False 0 (- 2)) = 0" by (simp add: dval_def)
  have h7: "dec_div (Decimal False 1 0) (Decimal False 1 0) = Inr (Decimal False 1 0)"
    by code_simp
  from converter_result_positive
         [of ?ev5 estado_vazio "Float64 False 7036874417766400 (- 46)" "''USD''" "''BRL''" True c s']
       s' c(2)
  have first: "\<exists>c s'. converter ?ev5 estado_vazio (Float64 False 7036874417766400 (- 46))
                  ''USD'' ''BRL'' True = (Inr c, s')
          \<and> valor_convertido c = Decimal False 50745 (- 2)
          \<and> 0 < dval (valor_convertido c)"
    by blast
  from converter_result_positive
         [of ?ev1 estado_vazio ?v "''USD''" "''BRL''" True c s' "Decimal False 1 0"
             "Decimal False 1 (- 3)" "Decimal False 0 (- 2)"]
       h1 h2 h3 h4 h5 h6 h7
  have second: "fst (converter ?ev1 estado_vazio ?v ''USD'' ''BRL'' True) = Inl ValidationError"
    by blast
  from first second show ?thesis by blast
qed

section \<open>Properties of the conversion engine: partial success of a batch\<close>











lemma alvos_falhos_Cons:
  "alvos_falhos (x # xs) =
     (case alvo_falho x of None \<Rightarrow> alvos_falhos xs | Some m \<Rightarrow> m # alvos_falhos xs)"
  unfolding alvos_falhos_def by (simp add: map_filter_simps)

lemma alvos_falhos_Nil [simp]: "alvos_falhos [] = []"
  by (simp add: alvos_falhos_def map_filter_simps)

lemma alvos_falhos_append [simp]:
  "alvos_falhos (xs @ ys) = alvos_falhos xs @ alvos_falhos ys"
  by (induction xs) (simp_all add: alvos_falhos_Cons split: option.splits)

lemma alvo_falho_simps [simp]:
  "alvo_falho (Log DEBUG ps) = None"
  "alvo_falho (Log INFO ps) = None"
  "alvo_falho (Log ERROR ps) = None"
  "alvo_falho (Log WARNING [S ''Falha em '', S n, S q, E e]) = None"
  "alvo_falho (Log WARNING [S ''Erro ao converter para '', S m, S q, E e]) = Some m"
  by (simp_all add: alvo_falho_def)











section \<open>Properties of the conversion engine: the cached rate\<close>

lemma ttl_get [simp]: "ttl (snd (get c t1 key)) = ttl c"
  by (auto simp: get_def delete_def unlink_def
      split: option.splits arquivo.splits tsfield.splits)

lemma get_hit:
  assumes "memory_cache c key = Some v" and "timestamps c key = Some t0"
    and "t1 - t0 < ttl c * 1000000"
  shows "get c t1 key = (Inr (Some v), c)"
  using assms by (simp add: get_def is_valid_def)

text \<open>
  Claim C2, as stated, fails. The provider answers the rate 1.0000000000000000001; the
  miss stores \<open>float(taxa)\<close>, the binary float 1.0, and one second later the same
  conversion reads it back as \<open>Decimal('1.0')\<close>, a different rate.
\<close>

theorem obter_taxa_float_counterexample:
  "fst (obter_taxa
          (ambiente 0 [frankfurter (\<lambda>de para.
             Inr [''BRL'' \<mapsto> Decimal False 10000000000000000001 (- 19)])])
          estado_vazio ''USD'' ''BRL'')
     = Inr (Some (Decimal False 10000000000000000001 (- 19)))
   \<and> memory_cache (cache (snd (obter_taxa
          (ambiente 0 [frankfurter (\<lambda>de para.
             Inr [''BRL'' \<mapsto> Decimal False 10000000000000000001 (- 19)])])
          estado_vazio ''USD'' ''BRL''))) (cache_key ''USD'' ''BRL'')
     = Some (Finite (Float64 False 4503599627370496 (- 52)))
   \<and> fst (obter_taxa
          (ambiente 1000000 [frankfurter (\<lambda>de para.
             Inr [''BRL'' \<mapsto> Decimal False 10000000000000000001 (- 19)])])
          (snd (obter_taxa
             (ambiente 0 [frankfurter (\<lambda>de para.
                Inr [''BRL'' \<mapsto> Decimal False 10000000000000000001 (- 19)])])
             estado_vazio ''USD'' ''BRL''))
          ''USD'' ''BRL'')
     = Inr (Some (Decimal False 10 (- 1)))
   \<and> dval (Decimal False 10 (- 1)) \<noteq> dval (Decimal False 10000000000000000001 (- 19))"
proof -
  have a: "fst (obter_taxa
          (ambiente 0 [frankfurter (\<lambda>de para.
             Inr [''BRL'' \<mapsto> Decimal False 10000000000000000001 (- 19)])])
          estado_vazio ''USD'' ''BRL'')
     = Inr (Some (Decimal False 10000000000000000001 (- 19)))"
    by code_simp
  have b: "memory_cache (cache (snd (obter_taxa
          (ambiente 0 [frankfurter (\<lambda>de para.
             Inr [''BRL'' \<mapsto> Decimal False 10000000000000000001 (- 19)])])
          estado_vazio ''USD'' ''BRL''))) (cache_key ''USD'' ''BRL'')
     = Some (Finite (Float64 False 4503599627370496 (- 52)))"
    by code_simp
  have c: "fst (obter_taxa
          (ambiente 1000000 [frankfurter (\<lambda>de para.
             Inr [''BRL'' \<mapsto> Decimal False 10000000000000000001 (- 19)])])
          (snd (obter_taxa
             (ambiente 0 [frankfurter (\<lambda>de para.
                Inr [''BRL'' \<mapsto> Decimal False 10000000000000000001 (- 19)])])
             estado_vazio ''USD'' ''BRL''))
          ''USD'' ''BRL'')
     = Inr (Some (Decimal False 10 (- 1)))"
    by code_simp
  have d: "dval (Decimal False 10 (- 1)) \<noteq> dval (Decimal False 10000000000000000001 (- 19))"
    by (simp add: dval_def power_int_minus)
  from a b c d show ?thesis by blast
qed

text \<open>
  Claim C2, amended. After a miss that fetched the rate \<open>r\<close> and wrote the cache, both
  tiers hold \<open>float(r)\<close>, the binary float nearest to \<open>r\<close>. Every later lookup of the
  pair within the TTL is a hit that leaves the cache as it is and yields
  \<open>Decimal(str(float(r)))\<close>: the same rate on every hit, the shortest decimal that
  reads back as the stored float.
\<close>

theorem obter_taxa_float_roundtrip:
  assumes "fst (get (cache s) (now ev) (cache_key de para)) = Inr None"
    and "fst (obter_taxa_par (clients ev) de para (logger s)) = Inr r"
    and "disk_write ev = WriteOk"
  shows "fst (obter_taxa ev s de para) = Inr (Some r)
     \<and> memory_cache (cache (snd (obter_taxa ev s de para))) (cache_key de para)
         = Some (float_of_decimal r)
     \<and> cache_dir (cache (snd (obter_taxa ev s de para))) (cache_key de para)
         = Some (JObject (TsNaive (now ev)) (Some (float_of_decimal r)))
     \<and> (\<forall>ev'. now ev' - now ev < ttl (cache s) * 1000000 \<longrightarrow>
           fst (obter_taxa ev' (snd (obter_taxa ev s de para)) de para)
             = Inr (case float_of_decimal r of
                      Finite f \<Rightarrow> Some (decimal_of_float f)
                    | Inf sg \<Rightarrow> None)
           \<and> cache (snd (obter_taxa ev' (snd (obter_taxa ev s de para)) de para))
             = cache (snd (obter_taxa ev s de para)))"
proof -
  let ?key = "cache_key de para"
  obtain c0 where g: "get (cache s) (now ev) ?key = (Inr None, c0)"
    using assms(1) by (cases "get (cache s) (now ev) ?key") auto
  obtain lg where f: "obter_taxa_par (clients ev) de para (logger s) = (Inr r, lg)"
    using assms(2) by (cases "obter_taxa_par (clients ev) de para (logger s)") auto
  have t: "ttl c0 = ttl (cache s)"
    using ttl_get [of "cache s" "now ev" ?key] g by simp
  let ?c1 = "c0\<lparr>memory_cache := (memory_cache c0)(?key \<mapsto> float_of_decimal r),
                 timestamps := (timestamps c0)(?key \<mapsto> now ev),
                 cache_dir := (cache_dir c0)(?key \<mapsto>
                    JObject (TsNaive (now ev)) (Some (float_of_decimal r)))\<rparr>"
  have o: "obter_taxa ev s de para = (Inr (Some r), s\<lparr>cache := ?c1, logger := lg\<rparr>)"
    using g f assms(3) by (simp add: obter_taxa_def Let_def set_cache_def)
  have hit: "get ?c1 t1 ?key = (Inr (Some (float_of_decimal r)), ?c1)"
    if "t1 - now ev < ttl (cache s) * 1000000" for t1
    using that t by (intro get_hit) simp_all
  show ?thesis
    using o hit
    by (auto simp: obter_taxa_def Let_def log_add_def split: pyfloat.splits)
qed

text \<open>For the rate 5.0745 the decimal read back is the rate itself.\<close>

theorem obter_taxa_float_roundtrip_witness:
  "fst (obter_taxa
          (ambiente 0 [frankfurter (\<lambda>de para. Inr [''BRL'' \<mapsto> Decimal False 50745 (- 4)])])
          estado_vazio ''USD'' ''BRL'')
     = Inr (Some (Decimal False 50745 (- 4)))
   \<and> memory_cache (cache (snd (obter_taxa
          (ambiente 0 [frankfurter (\<lambda>de para. Inr [''BRL'' \<mapsto> Decimal False 50745 (- 4)])])
          estado_vazio ''USD'' ''BRL''))) (cache_key ''USD'' ''BRL'')
     = Some (Finite (Float64 False 5713379077272895 (- 50)))
   \<and> fst (obter_taxa
          (ambiente 3599999999 [])
          (snd (obter_taxa
             (ambiente 0 [frankfurter (\<lambda>de para. Inr [''BRL'' \<mapsto> Decimal False 50745 (- 4)])])
             estado_vazio ''USD'' ''BRL''))
          ''USD'' ''BRL'')
     = Inr (Some (Decimal False 50745 (- 4)))"
proof -
  let ?ev = "ambiente 0 [frankfurter (\<lambda>de para. Inr [''BRL'' \<mapsto> Decimal False 50745 (- 4)])]"
  have h1: "fst (get (cache estado_vazio) (now ?ev) (cache_key ''USD'' ''BRL'')) = Inr None"
    by (simp add: get_def estado_vazio_def)
  have h2: "fst (obter_taxa_par (clients ?ev) ''USD'' ''BRL'' (logger estado_vazio))
            = Inr (Decimal False 50745 (- 4))"
    by code_simp
  have h3: "disk_write ?ev = WriteOk" by (simp add: ambiente_def)
  have f: "float_of_decimal (Decimal False 50745 (- 4))
           = Finite (Float64 False 5713379077272895 (- 50))"
    by code_simp
  have g: "decimal_of_float (Float64 False 5713379077272895 (- 50)) = Decimal False 50745 (- 4)"
    by code_simp
  have t: "now (ambiente 3599999999 []) - now ?ev < ttl (cache estado_vazio) * 1000000"
    by (simp add: ambiente_def estado_vazio_def)
  from obter_taxa_float_roundtrip [OF h1 h2 h3] t f g show ?thesis
    by (auto simp del: One_nat_def)
qed

end
